theory Spec2Isabelle
  imports Main
begin

section \<open>Provider records and the inventory client (main.go)\<close>

text \<open>
  The display record of main.go, with the field names of the Go struct.
\<close>

record Instance =
  GlobalIP :: string
  InstanceId :: string
  Name :: string
  Platform :: string
  PrivateIp :: string
  SecurityGroupId :: string
  State :: string

text \<open>
  The provider's record shapes, restricted to the members main.go reads. A Go pointer
  member is an \<open>option\<close> (\<open>None\<close> is nil); a slice is a list. Members whose names
  clash with the display record carry the prefix \<open>sdk_\<close>. The SDK declares the
  instance's state as a pointer to a state record, so reading its name through a nil
  pointer panics like every other nil dereference.
\<close>

record Tag =
  Key :: "string option"
  Value :: "string option"

record GroupIdentifier =
  GroupId :: "string option"

record InstanceNetworkInterface =
  PrivateIpAddress :: "string option"

record InstanceState =
  sdk_Name :: string

record sdk_Instance =
  sdk_InstanceId :: "string option"
  sdk_Platform :: string
  PublicIpAddress :: "string option"
  NetworkInterfaces :: "InstanceNetworkInterface list"
  SecurityGroups :: "GroupIdentifier list"
  sdk_State :: "InstanceState option"
  Tags :: "Tag list"

record Reservation =
  Instances :: "sdk_Instance list"

record DescribeInstancesOutput =
  Reservations :: "Reservation list"

text \<open>
  A Go call either returns or panics. An \<open>error\<close> value is modelled by its message.
  \<open>Returned (Inl err)\<close> is a call that returned a non-nil error.
\<close>

datatype 'a exec = Panicked | Returned 'a

type_synonym error = string

text \<open>
  The provider behind the client: what each of the three operations answers. The log of
  issued calls is part of the application state below.
\<close>

datatype ProviderCall =
  DescribeInstancesCall
  | StartInstancesCall "string list"
  | StopInstancesCall "string list"

record EC2Client =
  DescribeInstances :: "error + DescribeInstancesOutput"
  StartInstances :: "string list \<Rightarrow> error option"
  StopInstances :: "string list \<Rightarrow> error option"

subsection \<open>NewEC2Client\<close>

datatype LoadOption = WithSharedConfigProfile string | WithRegion string

text \<open>
  \<open>LoadDefaultConfig\<close> is the SDK's loader; it is a parameter here, and
  \<open>NewFromConfig\<close> is the SDK's client constructor, also a parameter.
\<close>

definition NewEC2Client ::
  "(LoadOption list \<Rightarrow> error + 'cfg) \<Rightarrow> ('cfg \<Rightarrow> 'cl) \<Rightarrow> string \<Rightarrow> error + 'cl" where
  "NewEC2Client LoadDefaultConfig NewFromConfig profile =
     (case LoadDefaultConfig [WithSharedConfigProfile profile, WithRegion ''ap-northeast-1''] of
        Inl err \<Rightarrow> Inl (''unable to load SDK config: '' @ err)
      | Inr cfg \<Rightarrow> Inr (NewFromConfig cfg))"

subsection \<open>joinStrings\<close>

fun joinStrings_loop :: "string \<Rightarrow> string list \<Rightarrow> string \<Rightarrow> string" where
  "joinStrings_loop result [] sep = result"
| "joinStrings_loop result (s # rest) sep = joinStrings_loop (result @ sep @ s) rest sep"

fun joinStrings :: "string list \<Rightarrow> string \<Rightarrow> string" where
  "joinStrings [] sep = ''''"
| "joinStrings (s # rest) sep = joinStrings_loop s rest sep"

subsection \<open>getInstances\<close>

text \<open>The tag loop: \<open>name\<close> starts empty; the first tag keyed \<open>Name\<close> sets it and breaks.\<close>

fun getInstances_name :: "Tag list \<Rightarrow> string exec" where
  "getInstances_name [] = Returned ''''"
| "getInstances_name (tag # rest) =
     (case Key tag of
        None \<Rightarrow> Panicked
      | Some k \<Rightarrow>
          if k = ''Name'' then (case Value tag of None \<Rightarrow> Panicked | Some v \<Rightarrow> Returned v)
          else getInstances_name rest)"

text \<open>The security-group loop appends each dereferenced group identifier.\<close>

fun getInstances_sgIDs :: "string list \<Rightarrow> GroupIdentifier list \<Rightarrow> string list exec" where
  "getInstances_sgIDs sgIDs [] = Returned sgIDs"
| "getInstances_sgIDs sgIDs (sg # rest) =
     (case GroupId sg of
        None \<Rightarrow> Panicked
      | Some g \<Rightarrow> getInstances_sgIDs (sgIDs @ [g]) rest)"

text \<open>The body of the inner loop: one provider instance becomes one display record.\<close>

definition getInstances_instance :: "sdk_Instance \<Rightarrow> Instance exec" where
  "getInstances_instance instance =
     (case getInstances_name (Tags instance) of
        Panicked \<Rightarrow> Panicked
      | Returned name \<Rightarrow>
          let platform = (if sdk_Platform instance \<noteq> '''' then sdk_Platform instance else ''None'');
              publicIP = (case PublicIpAddress instance of None \<Rightarrow> '''' | Some a \<Rightarrow> a);
              privateIP =
                (case NetworkInterfaces instance of
                   [] \<Rightarrow> ''''
                 | ni # _ \<Rightarrow> (case PrivateIpAddress ni of None \<Rightarrow> '''' | Some a \<Rightarrow> a))
          in (case getInstances_sgIDs [] (SecurityGroups instance) of
                Panicked \<Rightarrow> Panicked
              | Returned sgIDs \<Rightarrow>
                  (case sdk_InstanceId instance of
                     None \<Rightarrow> Panicked
                   | Some iid \<Rightarrow>
                       (case sdk_State instance of
                          None \<Rightarrow> Panicked
                        | Some st \<Rightarrow>
                            Returned \<lparr>GlobalIP = publicIP, InstanceId = iid, Name = name,
                              Platform = platform, PrivateIp = privateIP,
                              SecurityGroupId = joinStrings sgIDs '', '',
                              State = sdk_Name st\<rparr>))))"

fun getInstances_inner :: "Instance list \<Rightarrow> sdk_Instance list \<Rightarrow> Instance list exec" where
  "getInstances_inner instances [] = Returned instances"
| "getInstances_inner instances (instance # rest) =
     (case getInstances_instance instance of
        Panicked \<Rightarrow> Panicked
      | Returned r \<Rightarrow> getInstances_inner (instances @ [r]) rest)"

fun getInstances_outer :: "Instance list \<Rightarrow> Reservation list \<Rightarrow> Instance list exec" where
  "getInstances_outer instances [] = Returned instances"
| "getInstances_outer instances (reservation # rest) =
     (case getInstances_inner instances (Instances reservation) of
        Panicked \<Rightarrow> Panicked
      | Returned instances' \<Rightarrow> getInstances_outer instances' rest)"

definition getInstances :: "EC2Client \<Rightarrow> (error + Instance list) exec" where
  "getInstances c =
     (case DescribeInstances c of
        Inl err \<Rightarrow> Returned (Inl err)
      | Inr result \<Rightarrow>
          (case getInstances_outer [] (Reservations result) of
             Panicked \<Rightarrow> Panicked
           | Returned instances \<Rightarrow> Returned (Inr instances)))"

subsection \<open>startInstance and stopInstance\<close>

text \<open>Each issues one call for exactly the one identifier and returns the provider's error.\<close>

definition startInstance :: "EC2Client \<Rightarrow> string \<Rightarrow> error option" where
  "startInstance c instanceID = StartInstances c [instanceID]"

definition stopInstance :: "EC2Client \<Rightarrow> string \<Rightarrow> error option" where
  "stopInstance c instanceID = StopInstances c [instanceID]"

section \<open>The dashboard (main.go, main and showMessage)\<close>

subsection \<open>The table widget\<close>

text \<open>
  The table of the UI library, as far as main.go uses it: a grid of cells that grows on
  \<open>SetCell\<close>, rows that can be removed, and a selected row. \<open>PrimaryTextColor\<close> is the
  colour a new cell has before any \<open>SetTextColor\<close>: the default colour of the theme.
\<close>

datatype Color = ColorDefault | PrimaryTextColor | ColorGreen | ColorRed | ColorYellow

record TableCell =
  Text :: string
  TextColor :: Color
  NotSelectable :: bool

record Table =
  cells :: "TableCell list list"
  selectedRow :: nat

definition zeroCell :: TableCell where
  "zeroCell = \<lparr>Text = '''', TextColor = ColorDefault, NotSelectable = False\<rparr>"

definition NewTableCell :: "string \<Rightarrow> TableCell" where
  "NewTableCell text = \<lparr>Text = text, TextColor = PrimaryTextColor, NotSelectable = False\<rparr>"

definition SetTextColor :: "Color \<Rightarrow> TableCell \<Rightarrow> TableCell" where
  "SetTextColor color cell = cell\<lparr>TextColor := color\<rparr>"

definition SetSelectable :: "bool \<Rightarrow> TableCell \<Rightarrow> TableCell" where
  "SetSelectable selectable cell = cell\<lparr>NotSelectable := \<not> selectable\<rparr>"

definition GetRowCount :: "Table \<Rightarrow> nat" where
  "GetRowCount t = length (cells t)"

text \<open>Appending as many \<open>x\<close> as index \<open>i\<close> needs to exist.\<close>

definition grow :: "nat \<Rightarrow> 'a \<Rightarrow> 'a list \<Rightarrow> 'a list" where
  "grow i x xs = (if i \<ge> length xs then xs @ replicate (i - length xs + 1) x else xs)"

definition SetCell :: "nat \<Rightarrow> nat \<Rightarrow> TableCell \<Rightarrow> Table \<Rightarrow> Table" where
  "SetCell row column cell t =
     (let rs = grow row [] (cells t);
          r = grow column zeroCell (rs ! row)
      in t\<lparr>cells := rs[row := r[column := cell]]\<rparr>)"

definition GetCell :: "Table \<Rightarrow> nat \<Rightarrow> nat \<Rightarrow> TableCell" where
  "GetCell t row column =
     (if row < length (cells t) \<and> column < length (cells t ! row)
      then cells t ! row ! column else zeroCell)"

definition RemoveRow :: "int \<Rightarrow> Table \<Rightarrow> Table" where
  "RemoveRow row t =
     (if row < 0 \<or> row \<ge> int (length (cells t)) then t
      else t\<lparr>cells := take (nat row) (cells t) @ drop (nat row + 1) (cells t)\<rparr>)"

subsection \<open>Application state\<close>

text \<open>
  The root primitive of the application is the flex layout (table above the help line),
  the bare table, or a modal carrying its message. \<open>calls\<close> is the log of provider
  operations issued so far: every call site of a client method appends the operation
  that method issues.
\<close>

datatype View = NoRoot | FlexView | TableView | ModalView string

record App =
  table :: Table
  root :: View
  stopped :: bool
  calls :: "ProviderCall list"

datatype KeyCode = KeyRune | KeyOther nat

record EventKey =
  ek_Key :: KeyCode
  ek_Rune :: char

subsection \<open>refreshTable\<close>

text \<open>
  Modelled from the spec: the SDK's state-name constants \<open>InstanceStateNameRunning\<close>,
  \<open>InstanceStateNameStopped\<close>, \<open>InstanceStateNamePending\<close> and
  \<open>InstanceStateNameStopping\<close>, whose declarations are not part of the repository.
\<close>

definition InstanceStateNameRunning :: string where
  "InstanceStateNameRunning = ''running''"

definition InstanceStateNameStopped :: string where
  "InstanceStateNameStopped = ''stopped''"

definition InstanceStateNamePending :: string where
  "InstanceStateNamePending = ''pending''"

definition InstanceStateNameStopping :: string where
  "InstanceStateNameStopping = ''stopping''"

text \<open>The state cell of a row: the switch on the record's state sets the colour.\<close>

definition refreshTable_stateCell :: "Instance \<Rightarrow> TableCell" where
  "refreshTable_stateCell instance =
     (let stateCell = NewTableCell (State instance)
      in if State instance = InstanceStateNameRunning then SetTextColor ColorGreen stateCell
         else if State instance = InstanceStateNameStopped then SetTextColor ColorRed stateCell
         else if State instance = InstanceStateNamePending
                 \<or> State instance = InstanceStateNameStopping
              then SetTextColor ColorYellow stateCell
         else stateCell)"

text \<open>The clearing loop: \<open>row\<close> runs from the last row down to 1.\<close>

function refreshTable_clear :: "int \<Rightarrow> Table \<Rightarrow> Table" where
  "refreshTable_clear row t =
     (if row \<ge> 1 then refreshTable_clear (row - 1) (RemoveRow row t) else t)"
  by pat_completeness auto
termination
  by (relation "measure (\<lambda>(row, t). nat row)") auto

declare refreshTable_clear.simps [simp del]

text \<open>The filling loop: the record at index \<open>i\<close> is written to row \<open>i + 1\<close>.\<close>

definition refreshTable_row :: "nat \<Rightarrow> Instance \<Rightarrow> Table \<Rightarrow> Table" where
  "refreshTable_row row instance t =
     SetCell row 6 (refreshTable_stateCell instance)
       (SetCell row 5 (NewTableCell (SecurityGroupId instance))
         (SetCell row 4 (NewTableCell (PrivateIp instance))
           (SetCell row 3 (NewTableCell (Platform instance))
             (SetCell row 2 (NewTableCell (Name instance))
               (SetCell row 1 (NewTableCell (InstanceId instance))
                 (SetCell row 0 (NewTableCell (GlobalIP instance)) t))))))"

fun refreshTable_fill :: "nat \<Rightarrow> Instance list \<Rightarrow> Table \<Rightarrow> Table" where
  "refreshTable_fill i [] t = t"
| "refreshTable_fill i (instance # rest) t =
     refreshTable_fill (i + 1) rest (refreshTable_row (i + 1) instance t)"

definition refreshTable :: "EC2Client \<Rightarrow> App \<Rightarrow> (App \<times> error option) exec" where
  "refreshTable c app =
     (let app1 = app\<lparr>calls := calls app @ [DescribeInstancesCall]\<rparr>
      in case getInstances c of
           Panicked \<Rightarrow> Panicked
         | Returned (Inl err) \<Rightarrow> Returned (app1, Some err)
         | Returned (Inr instances) \<Rightarrow>
             Returned
               (app1\<lparr>table :=
                  refreshTable_fill 0 instances
                    (refreshTable_clear (int (GetRowCount (table app1)) - 1) (table app1))\<rparr>,
                None))"

subsection \<open>showMessage and the key handler\<close>

definition showMessage :: "App \<Rightarrow> string \<Rightarrow> App" where
  "showMessage app message = app\<lparr>root := ModalView message\<rparr>"

text \<open>The modal's done function, run when its button is chosen.\<close>

definition showMessage_done :: "App \<Rightarrow> App" where
  "showMessage_done app = app\<lparr>root := TableView\<rparr>"

definition inputCapture :: "EC2Client \<Rightarrow> App \<Rightarrow> EventKey \<Rightarrow> (App \<times> EventKey) exec" where
  "inputCapture c app event =
     (let row = selectedRow (table app)
      in if row = 0 then Returned (app, event)
         else
           let instanceID = Text (GetCell (table app) row 1)
           in case ek_Key event of
                KeyRune \<Rightarrow>
                  if ek_Rune event = CHR ''s'' then
                    (let app1 = app\<lparr>calls := calls app @ [StartInstancesCall [instanceID]]\<rparr>
                     in case startInstance c instanceID of
                          Some err \<Rightarrow>
                            Returned (showMessage app1 (''Error starting instance: '' @ err), event)
                        | None \<Rightarrow>
                            Returned (showMessage app1 (''Starting instance: '' @ instanceID), event))
                  else if ek_Rune event = CHR ''t'' then
                    (let app1 = app\<lparr>calls := calls app @ [StopInstancesCall [instanceID]]\<rparr>
                     in case stopInstance c instanceID of
                          Some err \<Rightarrow>
                            Returned (showMessage app1 (''Error stopping instance: '' @ err), event)
                        | None \<Rightarrow>
                            Returned (showMessage app1 (''Stopping instance: '' @ instanceID), event))
                  else if ek_Rune event = CHR ''q'' then
                    Returned (app\<lparr>stopped := True\<rparr>, event)
                  else if ek_Rune event = CHR ''r'' then
                    (case refreshTable c app of
                       Panicked \<Rightarrow> Panicked
                     | Returned (app1, Some err) \<Rightarrow>
                         Returned (showMessage app1 (''Error refreshing: '' @ err), event)
                     | Returned (app1, None) \<Rightarrow> Returned (app1, event))
                  else Returned (app, event)
              | KeyOther k \<Rightarrow> Returned (app, event))"

subsection \<open>main\<close>

definition headers :: "string list" where
  "headers = [''GlobalIP'', ''InstanceId'', ''Name'', ''Platform'', ''PrivateIp'',
              ''SecurityGroupId'', ''State'']"

fun main_header :: "nat \<Rightarrow> string list \<Rightarrow> Table \<Rightarrow> Table" where
  "main_header i [] t = t"
| "main_header i (header # rest) t =
     main_header (i + 1) rest
       (SetCell 0 i (SetSelectable False (SetTextColor ColorYellow (NewTableCell header))) t)"

text \<open>
  Start-up after the client exists: header, first refresh (fatal on error), then the flex
  layout becomes the root. \<open>Returned (Inl err)\<close> is the fatal exit.
\<close>

definition main_start :: "EC2Client \<Rightarrow> (error + App) exec" where
  "main_start c =
     (let app = \<lparr>table = main_header 0 headers \<lparr>cells = [], selectedRow = 0\<rparr>,
                 root = NoRoot, stopped = False, calls = []\<rparr>
      in case refreshTable c app of
           Panicked \<Rightarrow> Panicked
         | Returned (app1, Some err) \<Rightarrow> Returned (Inl err)
         | Returned (app1, None) \<Rightarrow> Returned (Inr (app1\<lparr>root := FlexView\<rparr>)))"

subsection \<open>The event loop\<close>

text \<open>
  What the UI library does with one input. Setting a root gives it the focus, so while a
  modal is the root the table's key handler is not reached; the only thing the modal
  offers is its button (or cancelling it), which runs the done function. With any other
  root a key goes to the table's handler, and the widget may then move the selection:
  \<open>Select\<close> stands for any such move, by key or by mouse. At each input the provider
  may answer differently, so an input comes with the client's answers at that moment.
\<close>

datatype Input = KeyPress EventKey | ModalDone | Select nat

definition step :: "EC2Client \<Rightarrow> App \<Rightarrow> Input \<Rightarrow> App exec" where
  "step c app input =
     (if stopped app then Returned app
      else case root app of
             ModalView message \<Rightarrow>
               (case input of ModalDone \<Rightarrow> Returned (showMessage_done app) | _ \<Rightarrow> Returned app)
           | _ \<Rightarrow>
               (case input of
                  KeyPress event \<Rightarrow>
                    (case inputCapture c app event of
                       Panicked \<Rightarrow> Panicked
                     | Returned (app1, event1) \<Rightarrow> Returned app1)
                | ModalDone \<Rightarrow> Returned app
                | Select row \<Rightarrow> Returned (app\<lparr>table := (table app)\<lparr>selectedRow := row\<rparr>\<rparr>)))"

fun run :: "App \<Rightarrow> (EC2Client \<times> Input) list \<Rightarrow> App exec" where
  "run app [] = Returned app"
| "run app ((c, input) # rest) =
     (case step c app input of Panicked \<Rightarrow> Panicked | Returned app1 \<Rightarrow> run app1 rest)"

section \<open>Notions used to state the properties\<close>

text \<open>Joining with a separator, as a specification: nothing before the first element.\<close>

fun join_with :: "string \<Rightarrow> string list \<Rightarrow> string" where
  "join_with sep [] = ''''"
| "join_with sep [s] = s"
| "join_with sep (s # t # rest) = s @ sep @ join_with sep (t # rest)"

text \<open>The instance records of a response in provider order: reservation by reservation.\<close>

definition all_instances :: "DescribeInstancesOutput \<Rightarrow> sdk_Instance list" where
  "all_instances result = concat (map Instances (Reservations result))"

text \<open>
  The tags the scan reads are present: every tag before the first one keyed \<open>Name\<close> has a
  key, and that first \<open>Name\<close> tag, if there is one, has a value.
\<close>

definition name_scan_ok :: "Tag list \<Rightarrow> bool" where
  "name_scan_ok tags =
     (list_all (\<lambda>t. Key t \<noteq> None) (takeWhile (\<lambda>t. Key t \<noteq> Some ''Name'') tags)
      \<and> (case find (\<lambda>t. Key t = Some ''Name'') tags of
            None \<Rightarrow> True
          | Some t \<Rightarrow> Value t \<noteq> None))"

text \<open>The value of the first tag keyed \<open>Name\<close>, empty when there is none.\<close>

definition first_Name_value :: "Tag list \<Rightarrow> string" where
  "first_Name_value tags =
     (case find (\<lambda>t. Key t = Some ''Name'') tags of
        None \<Rightarrow> ''''
      | Some t \<Rightarrow> (case Value t of None \<Rightarrow> '''' | Some v \<Rightarrow> v))"

text \<open>Every pointer the conversion of one instance dereferences is non-nil.\<close>

definition derefs_ok :: "sdk_Instance \<Rightarrow> bool" where
  "derefs_ok instance =
     (name_scan_ok (Tags instance)
      \<and> list_all (\<lambda>sg. GroupId sg \<noteq> None) (SecurityGroups instance)
      \<and> sdk_InstanceId instance \<noteq> None
      \<and> sdk_State instance \<noteq> None)"

text \<open>
  The simpler condition on a whole instance: identifier and state present, and every tag
  and every security group complete.
\<close>

definition all_members_present :: "sdk_Instance \<Rightarrow> bool" where
  "all_members_present instance =
     (list_all (\<lambda>t. Key t \<noteq> None \<and> Value t \<noteq> None) (Tags instance)
      \<and> list_all (\<lambda>sg. GroupId sg \<noteq> None) (SecurityGroups instance)
      \<and> sdk_InstanceId instance \<noteq> None
      \<and> sdk_State instance \<noteq> None)"

text \<open>The seven cells of the row written for one display record, by column.\<close>

definition row_cells :: "Instance \<Rightarrow> TableCell list" where
  "row_cells instance =
     [NewTableCell (GlobalIP instance), NewTableCell (InstanceId instance),
      NewTableCell (Name instance), NewTableCell (Platform instance),
      NewTableCell (PrivateIp instance), NewTableCell (SecurityGroupId instance),
      refreshTable_stateCell instance]"

subsection \<open>Small inputs for the concrete instances of the theorems\<close>

text \<open>A provider that answers the listing with \<open>result\<close> and accepts every start and stop.\<close>

definition answering :: "DescribeInstancesOutput \<Rightarrow> EC2Client" where
  "answering result =
     \<lparr>DescribeInstances = Inr result, StartInstances = Map.empty, StopInstances = Map.empty\<rparr>"

text \<open>A provider whose three operations all fail with \<open>err\<close>.\<close>

definition failing :: "error \<Rightarrow> EC2Client" where
  "failing err =
     \<lparr>DescribeInstances = Inl err, StartInstances = (\<lambda>ids. Some err),
      StopInstances = (\<lambda>ids. Some err)\<rparr>"

text \<open>An instance with the given identifier, state, tags and security groups, and no address.\<close>

definition instance_with ::
  "string option \<Rightarrow> string \<Rightarrow> Tag list \<Rightarrow> GroupIdentifier list \<Rightarrow> sdk_Instance" where
  "instance_with iid st tags sgs =
     \<lparr>sdk_InstanceId = iid, sdk_Platform = '''', PublicIpAddress = None,
      NetworkInterfaces = [], SecurityGroups = sgs,
      sdk_State = Some \<lparr>sdk_Name = st\<rparr>, Tags = tags\<rparr>"

text \<open>
  The dashboard as start-up leaves it when the first listing returned \<open>instances\<close>, with
  the selection moved to \<open>row\<close>.
\<close>

definition dashboard_showing :: "Instance list \<Rightarrow> nat \<Rightarrow> App" where
  "dashboard_showing instances row =
     \<lparr>table = (refreshTable_fill 0 instances
                 (main_header 0 headers \<lparr>cells = [], selectedRow = 0\<rparr>))\<lparr>selectedRow := row\<rparr>,
      root = FlexView, stopped = False, calls = [DescribeInstancesCall]\<rparr>"

text \<open>The key event of a character.\<close>

definition rune :: "char \<Rightarrow> EventKey" where
  "rune ch = \<lparr>ek_Key = KeyRune, ek_Rune = ch\<rparr>"

text \<open>The display record such an instance becomes.\<close>

definition shown :: "string \<Rightarrow> string \<Rightarrow> string \<Rightarrow> string \<Rightarrow> Instance" where
  "shown iid st name sgs =
     \<lparr>GlobalIP = '''', InstanceId = iid, Name = name, Platform = ''None'',
      PrivateIp = '''', SecurityGroupId = sgs, State = st\<rparr>"

section \<open>The inventory client: auxiliary facts\<close>

lemma joinStrings_loop_eq:
  "joinStrings_loop result rest sep = result @ concat (map (\<lambda>s. sep @ s) rest)"
  by (induction rest arbitrary: result) simp_all

lemma join_with_eq: "join_with sep (s # rest) = s @ concat (map (\<lambda>s. sep @ s) rest)"
  by (induction rest arbitrary: s) simp_all

lemma joinStrings_join_with: "joinStrings slice sep = join_with sep slice"
  by (cases slice) (simp_all add: joinStrings_loop_eq join_with_eq)

lemma getInstances_name_scan:
  "getInstances_name tags =
     (if name_scan_ok tags then Returned (first_Name_value tags) else Panicked)"
  by (induction tags) (auto simp: name_scan_ok_def first_Name_value_def split: option.splits)

lemma getInstances_sgIDs_acc:
  "getInstances_sgIDs acc sgs =
     (if list_all (\<lambda>sg. GroupId sg \<noteq> None) sgs
      then Returned (acc @ map (\<lambda>sg. the (GroupId sg)) sgs) else Panicked)"
  by (induction sgs arbitrary: acc) (auto split: option.splits)

lemma getInstances_instance_Panicked:
  "(getInstances_instance instance = Panicked) = (\<not> derefs_ok instance)"
  by (auto simp: getInstances_instance_def derefs_ok_def getInstances_name_scan
      getInstances_sgIDs_acc Let_def split: option.splits exec.splits)

lemma getInstances_inner_Panicked:
  "(getInstances_inner acc xs = Panicked) = (\<exists>x\<in>set xs. getInstances_instance x = Panicked)"
  by (induction xs arbitrary: acc) (auto split: exec.splits)

lemma getInstances_inner_Returned:
  "getInstances_inner acc xs = Returned out \<Longrightarrow>
     \<exists>recs. out = acc @ recs \<and> map Returned recs = map getInstances_instance xs"
proof (induction xs arbitrary: acc)
  case Nil
  then show ?case by simp
next
  case (Cons x xs)
  from Cons.prems obtain r where r: "getInstances_instance x = Returned r"
    and rest: "getInstances_inner (acc @ [r]) xs = Returned out"
    by (auto split: exec.splits)
  from Cons.IH [OF rest] obtain recs where "out = (acc @ [r]) @ recs"
    and "map Returned recs = map getInstances_instance xs" by blast
  with r have "out = acc @ (r # recs) \<and> map Returned (r # recs) = map getInstances_instance (x # xs)"
    by simp
  then show ?case by blast
qed

lemma getInstances_outer_Panicked:
  "(getInstances_outer acc rs = Panicked) =
     (\<exists>x\<in>set (concat (map Instances rs)). getInstances_instance x = Panicked)"
proof (induction rs arbitrary: acc)
  case Nil
  then show ?case by simp
next
  case (Cons r rs)
  show ?case
  proof (cases "getInstances_inner acc (Instances r)")
    case Panicked
    then show ?thesis
      using getInstances_inner_Panicked [of acc "Instances r"] by auto
  next
    case (Returned mid)
    then have "\<not> (\<exists>x\<in>set (Instances r). getInstances_instance x = Panicked)"
      using getInstances_inner_Panicked [of acc "Instances r"] by simp
    with Returned Cons.IH [of mid] show ?thesis by auto
  qed
qed

lemma getInstances_outer_Returned:
  "getInstances_outer acc rs = Returned out \<Longrightarrow>
     \<exists>recs. out = acc @ recs
       \<and> map Returned recs = map getInstances_instance (concat (map Instances rs))"
proof (induction rs arbitrary: acc)
  case Nil
  then show ?case by simp
next
  case (Cons r rs)
  from Cons.prems obtain mid where mid: "getInstances_inner acc (Instances r) = Returned mid"
    and rest: "getInstances_outer mid rs = Returned out"
    by (auto split: exec.splits)
  from getInstances_inner_Returned [OF mid] obtain recs1 where 1: "mid = acc @ recs1"
    "map Returned recs1 = map getInstances_instance (Instances r)" by blast
  from Cons.IH [OF rest] obtain recs2 where 2: "out = mid @ recs2"
    "map Returned recs2 = map getInstances_instance (concat (map Instances rs))" by blast
  from 1 2 have "out = acc @ (recs1 @ recs2) \<and>
     map Returned (recs1 @ recs2) = map getInstances_instance (concat (map Instances (r # rs)))"
    by simp
  then show ?case by blast
qed

lemma name_scan_ok_present:
  "list_all (\<lambda>t. Key t \<noteq> None \<and> Value t \<noteq> None) tags \<Longrightarrow> name_scan_ok tags"
  by (induction tags) (auto simp: name_scan_ok_def)

lemma all_members_present_derefs_ok: "all_members_present instance \<Longrightarrow> derefs_ok instance"
  by (simp add: all_members_present_def derefs_ok_def name_scan_ok_present)

lemma getInstances_instance_Name:
  "getInstances_instance instance = Returned r \<Longrightarrow> Name r = first_Name_value (Tags instance)"
  by (auto simp: getInstances_instance_def getInstances_name_scan Let_def
      split: exec.splits option.splits if_splits)

lemma getInstances_sgIDs_present:
  "getInstances_sgIDs acc (map (\<lambda>g. \<lparr>GroupId = Some g\<rparr>) ids) = Returned (acc @ ids)"
  by (induction ids arbitrary: acc) simp_all

lemma getInstances_sgIDs_Returned:
  "getInstances_sgIDs acc sgs = Returned out \<Longrightarrow>
     \<exists>ids. out = acc @ ids \<and> map GroupId sgs = map Some ids"
proof (induction sgs arbitrary: acc)
  case Nil
  then show ?case by simp
next
  case (Cons sg sgs)
  from Cons.prems obtain g where g: "GroupId sg = Some g"
    and rest: "getInstances_sgIDs (acc @ [g]) sgs = Returned out"
    by (auto split: option.splits)
  from Cons.IH [OF rest] obtain ids where "out = (acc @ [g]) @ ids" "map GroupId sgs = map Some ids"
    by blast
  with g have "out = acc @ (g # ids) \<and> map GroupId (sg # sgs) = map Some (g # ids)" by simp
  then show ?case by blast
qed

lemma getInstances_instance_SecurityGroupId:
  assumes "getInstances_instance instance = Returned r"
    and "map GroupId (SecurityGroups instance) = map Some ids"
  shows "SecurityGroupId r = join_with '', '' ids"
proof -
  from assms(1) obtain sgIDs where s: "getInstances_sgIDs [] (SecurityGroups instance) = Returned sgIDs"
    and r: "SecurityGroupId r = joinStrings sgIDs '', ''"
    by (auto simp: getInstances_instance_def Let_def split: exec.splits option.splits)
  from getInstances_sgIDs_Returned [OF s] assms(2) have "map Some sgIDs = map Some ids"
    by auto
  then have "sgIDs = ids"
    by (simp add: inj_map_eq_map)
  with r show ?thesis by (simp add: joinStrings_join_with)
qed

lemma getInstances_Panicked:
  "DescribeInstances c = Inr result \<Longrightarrow>
   (getInstances c = Panicked) = (\<not> list_all derefs_ok (all_instances result))"
proof -
  assume d: "DescribeInstances c = Inr result"
  have "(getInstances c = Panicked) = (getInstances_outer [] (Reservations result) = Panicked)"
    using d by (simp add: getInstances_def split: exec.splits)
  also have "\<dots> = (\<not> list_all derefs_ok (all_instances result))"
    by (simp add: getInstances_outer_Panicked all_instances_def list_all_iff
        getInstances_instance_Panicked)
  finally show ?thesis .
qed

section \<open>The inventory client: properties\<close>

subsection \<open>C2: one record per instance, in provider order\<close>

text \<open>
  Claim C2, as stated, says that for every provider response with N instance records the
  listing returns exactly N display records in provider order. The conversion
  dereferences the identifier of each attached security group without a nil check, so a
  response of two instances, each with its own identifier and state, in which one
  attached group has no group identifier makes the listing panic instead of returning
  two records.
\<close>

theorem list_panics_on_nil_group_identifier:
  "getInstances (answering \<lparr>Reservations =
       [\<lparr>Instances = [instance_with (Some ''i-1'') ''running'' [] [\<lparr>GroupId = Some ''sg-1''\<rparr>]]\<rparr>,
        \<lparr>Instances = [instance_with (Some ''i-2'') ''stopped'' []
                        [\<lparr>GroupId = Some ''sg-1''\<rparr>, \<lparr>GroupId = None\<rparr>]]\<rparr>]\<rparr>) = Panicked"
  by (simp add: getInstances_def answering_def instance_with_def getInstances_instance_def)

text \<open>
  Claim C2, amended: for every provider response in which every pointer the conversion
  dereferences is non-nil (the identifier of each instance, which the provider
  guarantees, its state, the identifier of each security group, the key of each tag up
  to the first one keyed \<open>Name\<close> and the value of that tag), the listing returns
  exactly one display record per instance
  record, in provider order: reservations in order, instances within each reservation in
  order, the i-th record being the conversion of the i-th instance. Nothing is sorted,
  dropped or repeated.
\<close>

theorem list_flattens_in_order:
  assumes "DescribeInstances c = Inr result"
    and "list_all derefs_ok (all_instances result)"
  shows "\<exists>instances. getInstances c = Returned (Inr instances)
           \<and> length instances = length (all_instances result)
           \<and> map Returned instances = map getInstances_instance (all_instances result)"
proof -
  from assms(2) have "getInstances_outer [] (Reservations result) \<noteq> Panicked"
    by (simp add: getInstances_outer_Panicked all_instances_def list_all_iff
        getInstances_instance_Panicked)
  then obtain out where out: "getInstances_outer [] (Reservations result) = Returned out"
    by (cases "getInstances_outer [] (Reservations result)") simp_all
  from getInstances_outer_Returned [OF out]
  have m: "map Returned out = map getInstances_instance (all_instances result)"
    by (simp add: all_instances_def)
  then have "length out = length (all_instances result)"
    using map_eq_imp_length_eq by blast
  with m out assms(1) show ?thesis
    by (simp add: getInstances_def)
qed

theorem list_flattens_in_order_witness:
  "DescribeInstances (answering \<lparr>Reservations =
       [\<lparr>Instances = [instance_with (Some ''i-1'') ''running'' [] []]\<rparr>,
        \<lparr>Instances = []\<rparr>,
        \<lparr>Instances = [instance_with (Some ''i-2'') ''stopped'' [] [],
                      instance_with (Some ''i-3'') ''pending'' [] []]\<rparr>]\<rparr>)
   = Inr \<lparr>Reservations =
       [\<lparr>Instances = [instance_with (Some ''i-1'') ''running'' [] []]\<rparr>,
        \<lparr>Instances = []\<rparr>,
        \<lparr>Instances = [instance_with (Some ''i-2'') ''stopped'' [] [],
                      instance_with (Some ''i-3'') ''pending'' [] []]\<rparr>]\<rparr>
   \<and> getInstances (answering \<lparr>Reservations =
       [\<lparr>Instances = [instance_with (Some ''i-1'') ''running'' [] []]\<rparr>,
        \<lparr>Instances = []\<rparr>,
        \<lparr>Instances = [instance_with (Some ''i-2'') ''stopped'' [] [],
                      instance_with (Some ''i-3'') ''pending'' [] []]\<rparr>]\<rparr>)
     = Returned (Inr [shown ''i-1'' ''running'' '''' '''', shown ''i-2'' ''stopped'' '''' '''',
                      shown ''i-3'' ''pending'' '''' ''''])"
  using list_flattens_in_order [of
     "answering \<lparr>Reservations =
       [\<lparr>Instances = [instance_with (Some ''i-1'') ''running'' [] []]\<rparr>,
        \<lparr>Instances = []\<rparr>,
        \<lparr>Instances = [instance_with (Some ''i-2'') ''stopped'' [] [],
                      instance_with (Some ''i-3'') ''pending'' [] []]\<rparr>]\<rparr>"
     "\<lparr>Reservations =
       [\<lparr>Instances = [instance_with (Some ''i-1'') ''running'' [] []]\<rparr>,
        \<lparr>Instances = []\<rparr>,
        \<lparr>Instances = [instance_with (Some ''i-2'') ''stopped'' [] [],
                      instance_with (Some ''i-3'') ''pending'' [] []]\<rparr>]\<rparr>"]
  by (simp add: getInstances_def answering_def instance_with_def shown_def all_instances_def
      derefs_ok_def name_scan_ok_def getInstances_instance_def)

subsection \<open>C5: the display name is the first tag keyed Name\<close>

text \<open>
  Claim C5, as stated, says that for every tag list the display name is the value of the
  first tag whose key is exactly \<open>Name\<close>. The scan dereferences the key of every tag it
  passes, so a tag with a nil key in front of the \<open>Name\<close> tag makes the conversion
  panic instead of yielding \<open>web-1\<close>.
\<close>

theorem name_scan_panics_on_nil_key:
  "getInstances_instance (instance_with (Some ''i-1'') ''running''
      [\<lparr>Key = None, Value = Some ''x''\<rparr>, \<lparr>Key = Some ''Name'', Value = Some ''web-1''\<rparr>] [])
   = Panicked"
  by (simp add: instance_with_def getInstances_instance_def)

text \<open>
  Claim C5, amended: for every tag list in which every tag before the first tag keyed
  \<open>Name\<close> has a key and that first \<open>Name\<close> tag has a value (in particular whenever
  every tag has a key and a value), the scan returns the value of the first tag, in
  provider tag order, whose key is exactly \<open>Name\<close>, and the empty string when no tag
  has that key; later \<open>Name\<close> tags are ignored. It is the \<open>Name\<close> field of the
  display record.
\<close>

theorem display_name_is_first_Name_tag:
  assumes "name_scan_ok tags"
  shows "getInstances_name tags = Returned (first_Name_value tags)
         \<and> (\<forall>instance r. Tags instance = tags \<and> getInstances_instance instance = Returned r
               \<longrightarrow> Name r = first_Name_value tags)"
  using assms by (auto simp: getInstances_name_scan dest: getInstances_instance_Name)

theorem display_name_is_first_Name_tag_witness:
  "name_scan_ok [\<lparr>Key = Some ''other'', Value = Some ''x''\<rparr>,
                 \<lparr>Key = Some ''Name'', Value = Some ''web-1''\<rparr>,
                 \<lparr>Key = Some ''Name'', Value = Some ''ignored-dup''\<rparr>]
   \<and> getInstances_name [\<lparr>Key = Some ''other'', Value = Some ''x''\<rparr>,
                 \<lparr>Key = Some ''Name'', Value = Some ''web-1''\<rparr>,
                 \<lparr>Key = Some ''Name'', Value = Some ''ignored-dup''\<rparr>] = Returned ''web-1''
   \<and> first_Name_value [\<lparr>Key = Some ''other'', Value = Some ''x''\<rparr>,
                 \<lparr>Key = Some ''Name'', Value = Some ''web-1''\<rparr>,
                 \<lparr>Key = Some ''Name'', Value = Some ''ignored-dup''\<rparr>] = ''web-1''"
  using display_name_is_first_Name_tag [of
     "[\<lparr>Key = Some ''other'', Value = Some ''x''\<rparr>,
       \<lparr>Key = Some ''Name'', Value = Some ''web-1''\<rparr>,
       \<lparr>Key = Some ''Name'', Value = Some ''ignored-dup''\<rparr>]"]
  by (simp add: name_scan_ok_def first_Name_value_def)

subsection \<open>C6: the security-group field\<close>

text \<open>
  Claim C6: for every list of security-group identifiers, possibly empty, the loop over
  the attached groups collects the identifiers in provider order and \<open>joinStrings\<close>
  renders them joined with the separator \<open>, \<close>, the empty list as the empty string;
  the \<open>SecurityGroupId\<close> field of a display record is that join of the identifiers of
  the instance's groups.
\<close>

theorem security_groups_joined:
  "joinStrings ids '', '' = join_with '', '' ids
   \<and> getInstances_sgIDs [] (map (\<lambda>g. \<lparr>GroupId = Some g\<rparr>) ids) = Returned ids
   \<and> (getInstances_instance instance = Returned r
        \<and> map GroupId (SecurityGroups instance) = map Some ids
      \<longrightarrow> SecurityGroupId r = join_with '', '' ids)"
  using getInstances_sgIDs_present [of "[]" ids]
  by (auto simp: joinStrings_join_with dest: getInstances_instance_SecurityGroupId)

theorem security_groups_joined_witness:
  "joinStrings [''sg-1'', ''sg-2''] '', '' = ''sg-1, sg-2''
   \<and> joinStrings [] '', '' = ''''
   \<and> getInstances_instance (instance_with (Some ''i-1'') ''running'' []
        [\<lparr>GroupId = Some ''sg-1''\<rparr>, \<lparr>GroupId = Some ''sg-2''\<rparr>])
       = Returned (shown ''i-1'' ''running'' '''' ''sg-1, sg-2'')
   \<and> SecurityGroupId (shown ''i-1'' ''running'' '''' ''sg-1, sg-2'')
       = join_with '', '' [''sg-1'', ''sg-2'']"
  using security_groups_joined [of "[''sg-1'', ''sg-2'']"
      "instance_with (Some ''i-1'') ''running'' []
        [\<lparr>GroupId = Some ''sg-1''\<rparr>, \<lparr>GroupId = Some ''sg-2''\<rparr>]"
      "shown ''i-1'' ''running'' '''' ''sg-1, sg-2''"]
  by (simp add: instance_with_def shown_def getInstances_instance_def)

subsection \<open>C9: nil members of a provider response\<close>

text \<open>
  Claim C9, as stated, says that the listing is well defined only if every tag has a
  non-nil key and value, so that a response with a nil tag key makes it fail. The scan
  breaks at the first tag keyed \<open>Name\<close> and never reads the tags after it: a response
  whose instance has a tag with nil key and nil value after its \<open>Name\<close> tag is listed
  without failure.
\<close>

theorem list_survives_nil_tag_after_Name:
  "\<not> all_members_present (instance_with (Some ''i-1'') ''running''
        [\<lparr>Key = Some ''Name'', Value = Some ''web-1''\<rparr>, \<lparr>Key = None, Value = None\<rparr>] [])
   \<and> getInstances (answering \<lparr>Reservations = [\<lparr>Instances =
        [instance_with (Some ''i-1'') ''running''
          [\<lparr>Key = Some ''Name'', Value = Some ''web-1''\<rparr>, \<lparr>Key = None, Value = None\<rparr>] []]\<rparr>]\<rparr>)
     = Returned (Inr [shown ''i-1'' ''running'' ''web-1'' ''''])"
  by (simp add: all_members_present_def getInstances_def answering_def instance_with_def
      shown_def getInstances_instance_def)

text \<open>
  Claim C9, amended: the conversion dereferences, with no nil check, the identifier and
  the state of each instance, the identifier of each security group, the key of each tag
  up to and including the first one keyed \<open>Name\<close>, and the value of that tag only. The
  listing panics exactly when one of these is nil. So it does not panic when every
  identifier, state, group identifier, tag key and tag value is present; it always
  panics when an instance has a nil identifier or state or a group with a nil
  identifier; a nil key or value in a tag after the first \<open>Name\<close> tag, and a nil value
  of a tag not keyed \<open>Name\<close>, do no harm.
\<close>

theorem list_panics_iff_nil_dereference:
  assumes "DescribeInstances c = Inr result"
  shows "(getInstances c = Panicked) = (\<not> list_all derefs_ok (all_instances result))
     \<and> (list_all all_members_present (all_instances result) \<longrightarrow> getInstances c \<noteq> Panicked)
     \<and> ((\<exists>i\<in>set (all_instances result).
            sdk_InstanceId i = None \<or> sdk_State i = None
            \<or> (\<exists>sg\<in>set (SecurityGroups i). GroupId sg = None))
          \<longrightarrow> getInstances c = Panicked)"
proof -
  have 1: "(getInstances c = Panicked) = (\<not> list_all derefs_ok (all_instances result))"
    using assms by (rule getInstances_Panicked)
  have 2: "list_all all_members_present (all_instances result) \<longrightarrow> getInstances c \<noteq> Panicked"
    unfolding 1 by (auto simp: list_all_iff all_members_present_derefs_ok)
  have 3: "(\<exists>i\<in>set (all_instances result).
            sdk_InstanceId i = None \<or> sdk_State i = None
            \<or> (\<exists>sg\<in>set (SecurityGroups i). GroupId sg = None))
          \<longrightarrow> getInstances c = Panicked"
    unfolding 1 by (auto simp: list_all_iff derefs_ok_def)
  from 1 2 3 show ?thesis by blast
qed

theorem list_panics_iff_nil_dereference_witness:
  "DescribeInstances (answering \<lparr>Reservations = [\<lparr>Instances =
        [instance_with (Some ''i-1'') ''running'' [] [\<lparr>GroupId = None\<rparr>]]\<rparr>]\<rparr>)
     = Inr \<lparr>Reservations = [\<lparr>Instances =
        [instance_with (Some ''i-1'') ''running'' [] [\<lparr>GroupId = None\<rparr>]]\<rparr>]\<rparr>
   \<and> getInstances (answering \<lparr>Reservations = [\<lparr>Instances =
        [instance_with (Some ''i-1'') ''running'' [] [\<lparr>GroupId = None\<rparr>]]\<rparr>]\<rparr>) = Panicked"
  using list_panics_iff_nil_dereference [of
      "answering \<lparr>Reservations = [\<lparr>Instances =
        [instance_with (Some ''i-1'') ''running'' [] [\<lparr>GroupId = None\<rparr>]]\<rparr>]\<rparr>"
      "\<lparr>Reservations = [\<lparr>Instances =
        [instance_with (Some ''i-1'') ''running'' [] [\<lparr>GroupId = None\<rparr>]]\<rparr>]\<rparr>"]
  by (simp add: answering_def instance_with_def all_instances_def derefs_ok_def)

section \<open>Client construction\<close>

subsection \<open>C1: what client construction decides itself\<close>

text \<open>
  Claim C1, as stated, says that client construction fixes no region and asks the loader
  for nothing beyond the named profile. With a loader that hands back the options it
  receives, construction for the profile \<open>default\<close> shows two options: the profile and
  the region \<open>ap-northeast-1\<close>.
\<close>

theorem client_construction_fixes_region:
  "NewEC2Client Inr id ''default''
     = Inr [WithSharedConfigProfile ''default'', WithRegion ''ap-northeast-1'']
   \<and> NewEC2Client Inr id ''default'' \<noteq> Inr [WithSharedConfigProfile ''default'']"
  by (simp add: NewEC2Client_def)

text \<open>
  Claim C1, amended: for every profile argument, client construction passes to the
  loader exactly two options, the named profile and the fixed region
  \<open>ap-northeast-1\<close>; everything else is the loader's: the outcome depends on the loader
  only through its answer to these two options. Credential resolution is delegated, the
  region is not.
\<close>

theorem client_construction_options:
  "NewEC2Client Inr id profile
     = Inr [WithSharedConfigProfile profile, WithRegion ''ap-northeast-1'']
   \<and> (LoadDefaultConfig [WithSharedConfigProfile profile, WithRegion ''ap-northeast-1'']
        = LoadDefaultConfig' [WithSharedConfigProfile profile, WithRegion ''ap-northeast-1'']
      \<longrightarrow> NewEC2Client LoadDefaultConfig NewFromConfig profile
          = NewEC2Client LoadDefaultConfig' NewFromConfig profile)"
  by (simp add: NewEC2Client_def)

theorem client_construction_options_witness:
  "NewEC2Client (\<lambda>opts. if WithRegion ''ap-northeast-1'' \<in> set opts then Inr opts else Inl ''no region'')
       length ''staging''
     = NewEC2Client Inr length ''staging''
   \<and> NewEC2Client Inr length ''staging'' = Inr 2"
  using client_construction_options [of "''staging''"
      "\<lambda>opts. if WithRegion ''ap-northeast-1'' \<in> set opts then Inr opts else Inl ''no region''"
      Inr length]
  by (simp add: NewEC2Client_def)

section \<open>The dashboard: auxiliary facts\<close>

lemma refreshTable_failed:
  "getInstances c = Returned (Inl err) \<Longrightarrow>
     refreshTable c app = Returned (app\<lparr>calls := calls app @ [DescribeInstancesCall]\<rparr>, Some err)"
  by (simp add: refreshTable_def)

lemma refreshTable_stateCell_State:
  "State a = State b \<Longrightarrow> refreshTable_stateCell a = refreshTable_stateCell b"
  unfolding refreshTable_stateCell_def by (auto simp: Let_def)

lemma length_grow: "length (grow i x xs) = max (Suc i) (length xs)"
  by (simp add: grow_def)

lemma nth_grow:
  "j < length (grow i x xs) \<Longrightarrow> grow i x xs ! j = (if j < length xs then xs ! j else x)"
  by (auto simp: grow_def nth_append simp del: replicate_Suc)

lemma GetCell_SetCell:
  "GetCell (SetCell row column cell t) row' column' =
     (if row' = row \<and> column' = column then cell else GetCell t row' column')"
  by (auto simp: GetCell_def SetCell_def Let_def nth_list_update length_grow nth_grow)

lemma GetCell_refreshTable_row:
  "GetCell (refreshTable_row row instance t) row' column =
     (if row' = row \<and> column < 7 then row_cells instance ! column else GetCell t row' column)"
proof -
  have "column < 7 \<Longrightarrow> column \<in> {0, 1, 2, 3, 4, 5, 6}" by auto
  then show ?thesis
    by (auto simp: refreshTable_row_def GetCell_SetCell row_cells_def)
qed

lemma GetCell_refreshTable_fill_frame:
  "row \<le> i \<Longrightarrow> GetCell (refreshTable_fill i instances t) row column = GetCell t row column"
  by (induction instances arbitrary: i t) (simp_all add: GetCell_refreshTable_row)

lemma GetCell_refreshTable_fill:
  "k < length instances \<Longrightarrow> column < 7 \<Longrightarrow>
     GetCell (refreshTable_fill i instances t) (i + k + 1) column = row_cells (instances ! k) ! column"
proof (induction instances arbitrary: i k t)
  case Nil
  then show ?case by simp
next
  case (Cons x xs)
  show ?case
  proof (cases k)
    case 0
    then show ?thesis
      using Cons.prems by (simp add: GetCell_refreshTable_fill_frame GetCell_refreshTable_row)
  next
    case (Suc j)
    with Cons.prems have "j < length xs" by simp
    from Cons.IH [OF this Cons.prems(2), of "i + 1" "refreshTable_row (i + 1) x t"] Suc
    show ?thesis by simp
  qed
qed

lemma refreshTable_clear_cells:
  "0 \<le> row \<Longrightarrow> nat row < length (cells t) \<Longrightarrow>
     refreshTable_clear row t = t\<lparr>cells := take 1 (cells t) @ drop (nat row + 1) (cells t)\<rparr>"
proof (induction row t rule: refreshTable_clear.induct)
  case (1 row t)
  show ?case
  proof (cases "row \<ge> 1")
    case False
    with "1.prems" have "row = 0" by simp
    then show ?thesis
      by (simp add: refreshTable_clear.simps [of 0 t])
  next
    case True
    let ?t' = "RemoveRow row t"
    from True "1.prems" have "\<not> (row < 0 \<or> row \<ge> int (length (cells t)))" by linarith
    then have c: "cells ?t' = take (nat row) (cells t) @ drop (nat row + 1) (cells t)"
      by (simp add: RemoveRow_def)
    with True "1.prems" have l: "nat (row - 1) < length (cells ?t')"
      by simp
    from True have "0 \<le> row - 1" by simp
    from "1.IH" [OF True this l]
    have "refreshTable_clear (row - 1) ?t' =
       ?t'\<lparr>cells := take 1 (cells ?t') @ drop (nat (row - 1) + 1) (cells ?t')\<rparr>" .
    moreover from True have "nat (row - 1) + 1 = nat row" by simp
    moreover from True "1.prems" have "take 1 (cells ?t') = take 1 (cells t)"
      by (cases "nat row") (auto simp: c)
    moreover from True "1.prems" have "drop (nat row) (cells ?t') = drop (nat row + 1) (cells t)"
      by (simp add: c)
    ultimately have "refreshTable_clear (row - 1) ?t' =
       ?t'\<lparr>cells := take 1 (cells t) @ drop (nat row + 1) (cells t)\<rparr>" by simp
    moreover have "?t'\<lparr>cells := take 1 (cells t) @ drop (nat row + 1) (cells t)\<rparr>
       = t\<lparr>cells := take 1 (cells t) @ drop (nat row + 1) (cells t)\<rparr>"
      by (simp add: RemoveRow_def)
    ultimately show ?thesis
      using True by (simp add: refreshTable_clear.simps [of row t])
  qed
qed

lemma refreshTable_clear_all:
  "refreshTable_clear (int (GetRowCount t) - 1) t = t\<lparr>cells := take 1 (cells t)\<rparr>"
proof (cases "cells t")
  case Nil
  then show ?thesis
    by (simp add: GetRowCount_def refreshTable_clear.simps [of "-1" t])
next
  case (Cons r rs)
  then have "refreshTable_clear (int (length (cells t)) - 1) t =
     t\<lparr>cells := take 1 (cells t) @ drop (nat (int (length (cells t)) - 1) + 1) (cells t)\<rparr>"
    by (intro refreshTable_clear_cells) simp_all
  then show ?thesis
    using Cons by (simp add: GetRowCount_def)
qed

lemma GetCell_selectedRow_update [simp]:
  "GetCell (t\<lparr>selectedRow := row\<rparr>) = GetCell t"
  by (simp add: GetCell_def fun_eq_iff)

lemma refreshTable_succeeded:
  "getInstances c = Returned (Inr instances) \<Longrightarrow>
     refreshTable c app =
       Returned (app\<lparr>calls := calls app @ [DescribeInstancesCall],
                     table := refreshTable_fill 0 instances
                                ((table app)\<lparr>cells := take 1 (cells (table app))\<rparr>)\<rparr>, None)"
  by (simp add: refreshTable_def refreshTable_clear_all)

lemma refreshTable_state_cell:
  assumes "getInstances c = Returned (Inr instances)" and "k < length instances"
  shows "\<exists>app'. refreshTable c app = Returned (app', None)
           \<and> GetCell (table app') (k + 1) 6 = refreshTable_stateCell (instances ! k)"
proof -
  from GetCell_refreshTable_fill [OF assms(2), of 6 0]
  have "GetCell (refreshTable_fill 0 instances ((table app)\<lparr>cells := take 1 (cells (table app))\<rparr>))
          (k + 1) 6 = refreshTable_stateCell (instances ! k)"
    by (simp add: row_cells_def)
  with refreshTable_succeeded [OF assms(1), of app] show ?thesis by simp
qed

lemma inputCapture_start:
  assumes "selectedRow (table app) \<noteq> 0" "ek_Key event = KeyRune" "ek_Rune event = CHR ''s''"
    and "instanceID = Text (GetCell (table app) (selectedRow (table app)) 1)"
  shows "inputCapture c app event =
     Returned (showMessage (app\<lparr>calls := calls app @ [StartInstancesCall [instanceID]]\<rparr>)
        (case startInstance c instanceID of
           Some err \<Rightarrow> ''Error starting instance: '' @ err
         | None \<Rightarrow> ''Starting instance: '' @ instanceID), event)"
  using assms by (simp add: inputCapture_def Let_def split: option.splits)

lemma inputCapture_stop:
  assumes "selectedRow (table app) \<noteq> 0" "ek_Key event = KeyRune" "ek_Rune event = CHR ''t''"
    and "instanceID = Text (GetCell (table app) (selectedRow (table app)) 1)"
  shows "inputCapture c app event =
     Returned (showMessage (app\<lparr>calls := calls app @ [StopInstancesCall [instanceID]]\<rparr>)
        (case stopInstance c instanceID of
           Some err \<Rightarrow> ''Error stopping instance: '' @ err
         | None \<Rightarrow> ''Stopping instance: '' @ instanceID), event)"
  using assms by (simp add: inputCapture_def Let_def split: option.splits)

lemma inputCapture_refresh_failed:
  assumes "selectedRow (table app) \<noteq> 0" "ek_Key event = KeyRune" "ek_Rune event = CHR ''r''"
    and "getInstances c = Returned (Inl err)"
  shows "inputCapture c app event =
     Returned (showMessage (app\<lparr>calls := calls app @ [DescribeInstancesCall]\<rparr>)
        (''Error refreshing: '' @ err), event)"
  using assms by (simp add: inputCapture_def refreshTable_failed)

lemma inputCapture_refresh_succeeded:
  assumes "selectedRow (table app) \<noteq> 0" "ek_Key event = KeyRune" "ek_Rune event = CHR ''r''"
    and "getInstances c = Returned (Inr instances)"
  shows "inputCapture c app event =
     Returned (app\<lparr>calls := calls app @ [DescribeInstancesCall],
                   table := refreshTable_fill 0 instances
                              ((table app)\<lparr>cells := take 1 (cells (table app))\<rparr>)\<rparr>, event)"
  using assms by (simp add: inputCapture_def refreshTable_succeeded)

lemma step_modal:
  "\<not> stopped app \<Longrightarrow>
     step c (showMessage app message) input =
       Returned (if input = ModalDone then showMessage_done (showMessage app message)
                 else showMessage app message)"
  by (cases input) (simp_all add: step_def showMessage_def)

lemma refreshTable_root:
  "refreshTable c app = Returned (app', e) \<Longrightarrow> root app' = root app"
  by (auto simp: refreshTable_def Let_def split: exec.splits sum.splits)

lemma inputCapture_root:
  "inputCapture c app event = Returned (app', event') \<Longrightarrow>
     root app' = root app \<or> (\<exists>m. root app' = ModalView m)"
  by (auto simp: inputCapture_def Let_def showMessage_def
      split: if_splits KeyCode.splits option.splits exec.splits prod.splits
      dest: refreshTable_root)

lemma step_root_not_FlexView:
  "root app \<noteq> FlexView \<Longrightarrow> step c app input = Returned app' \<Longrightarrow> root app' \<noteq> FlexView"
  by (auto simp: step_def showMessage_done_def
      split: if_splits View.splits Input.splits exec.splits prod.splits
      dest: inputCapture_root)

lemma run_root_not_FlexView:
  "root app \<noteq> FlexView \<Longrightarrow> run app inputs = Returned app' \<Longrightarrow> root app' \<noteq> FlexView"
proof (induction inputs arbitrary: app)
  case Nil
  then show ?case by simp
next
  case (Cons ci inputs)
  obtain c input where ci: "ci = (c, input)" by (cases ci)
  with Cons.prems obtain app1 where s: "step c app input = Returned app1"
    and r: "run app1 inputs = Returned app'"
    by (auto split: exec.splits)
  from step_root_not_FlexView [OF Cons.prems(1) s] have "root app1 \<noteq> FlexView" .
  from Cons.IH [OF this r] show ?case .
qed

text \<open>Start-up reaches the dashboard used in the concrete instances below.\<close>

lemma selectedRow_SetCell [simp]: "selectedRow (SetCell row column cell t) = selectedRow t"
  by (simp add: SetCell_def Let_def)

lemma selectedRow_refreshTable_fill [simp]:
  "selectedRow (refreshTable_fill i instances t) = selectedRow t"
  by (induction instances arbitrary: i t) (simp_all add: refreshTable_row_def)

lemma selectedRow_main_header [simp]: "selectedRow (main_header i hs t) = selectedRow t"
  by (induction hs arbitrary: i t) simp_all

lemma length_cells_SetCell:
  "length (cells (SetCell row column cell t)) = max (Suc row) (length (cells t))"
  by (simp add: SetCell_def Let_def length_grow)

lemma length_cells_main_header:
  "length (cells (main_header i hs t)) = (if hs = [] then length (cells t) else max 1 (length (cells t)))"
  by (induction hs arbitrary: i t) (auto simp: length_cells_SetCell)

lemma main_start_dashboard:
  assumes "getInstances c = Returned (Inr instances)"
  shows "main_start c = Returned (Inr (dashboard_showing instances 0))"
proof -
  let ?h = "main_header 0 headers \<lparr>cells = [], selectedRow = 0\<rparr>"
  have "length (cells ?h) = 1"
    by (simp add: headers_def length_cells_SetCell)
  then have "?h\<lparr>cells := take 1 (cells ?h)\<rparr> = ?h" by simp
  moreover have "(refreshTable_fill 0 instances ?h)\<lparr>selectedRow := 0\<rparr> = refreshTable_fill 0 instances ?h"
    by simp
  ultimately show ?thesis
    using refreshTable_succeeded [OF assms]
    by (simp add: main_start_def dashboard_showing_def)
qed

text \<open>What a successful refresh from the key handler leaves in the table.\<close>

lemma length_cells_refreshTable_row:
  "length (cells (refreshTable_row row instance t)) = max (Suc row) (length (cells t))"
  by (simp add: refreshTable_row_def length_cells_SetCell)

lemma length_cells_refreshTable_fill:
  "length (cells (refreshTable_fill i instances t)) =
     (if instances = [] then length (cells t)
      else max (i + length instances + 1) (length (cells t)))"
  by (induction instances arbitrary: i t) (auto simp: length_cells_refreshTable_row)

lemma GetCell_header_kept:
  "GetCell (t\<lparr>cells := take 1 (cells t)\<rparr>) 0 column = GetCell t 0 column"
  by (cases "cells t") (simp_all add: GetCell_def)

lemma inputCapture_refresh_redraws:
  assumes "selectedRow (table app) \<noteq> 0" "ek_Key event = KeyRune" "ek_Rune event = CHR ''r''"
    and "getInstances c = Returned (Inr instances)"
  shows "\<exists>app'. inputCapture c app event = Returned (app', event)
           \<and> root app' = root app
           \<and> GetRowCount (table app') =
               (if instances = [] then min 1 (GetRowCount (table app)) else length instances + 1)
           \<and> (\<forall>column. GetCell (table app') 0 column = GetCell (table app) 0 column)
           \<and> (\<forall>k column. k < length instances \<and> column < 7 \<longrightarrow>
                 GetCell (table app') (k + 1) column = row_cells (instances ! k) ! column)"
proof -
  let ?t = "refreshTable_fill 0 instances ((table app)\<lparr>cells := take 1 (cells (table app))\<rparr>)"
  have n: "GetRowCount ?t =
      (if instances = [] then min 1 (GetRowCount (table app)) else length instances + 1)"
    by (auto simp: GetRowCount_def length_cells_refreshTable_fill)
  have h: "GetCell ?t 0 column = GetCell (table app) 0 column" for column
    using GetCell_header_kept [of "table app" column]
    by (simp add: GetCell_refreshTable_fill_frame)
  have r: "GetCell ?t (k + 1) column = row_cells (instances ! k) ! column"
    if "k < length instances" "column < 7" for k column
    using GetCell_refreshTable_fill [OF that, of 0] by simp
  from inputCapture_refresh_succeeded [OF assms] n h r show ?thesis by simp
qed

section \<open>The dashboard: properties\<close>

subsection \<open>C8: keys on the header row\<close>

text \<open>
  Claim C8: when the header row (row 0) is the current selection, the key handler returns
  the event and the application state as they are, for every key and so for \<open>s\<close> and
  \<open>t\<close>: the table, the root view, the stop flag and the log of provider calls are
  unchanged, so no start, stop or refresh is issued.
\<close>

theorem header_row_keys_do_nothing:
  assumes "selectedRow (table app) = 0"
  shows "inputCapture c app event = Returned (app, event)"
  using assms by (simp add: inputCapture_def)

theorem header_row_keys_do_nothing_witness:
  "selectedRow (table (dashboard_showing [shown ''i-1'' ''stopped'' ''web-1'' ''''] 0)) = 0
   \<and> inputCapture (failing ''denied'')
        (dashboard_showing [shown ''i-1'' ''stopped'' ''web-1'' ''''] 0) (rune CHR ''s'')
       = Returned (dashboard_showing [shown ''i-1'' ''stopped'' ''web-1'' ''''] 0, rune CHR ''s'')
   \<and> calls (dashboard_showing [shown ''i-1'' ''stopped'' ''web-1'' ''''] 0) = [DescribeInstancesCall]"
  using header_row_keys_do_nothing [of
      "dashboard_showing [shown ''i-1'' ''stopped'' ''web-1'' ''''] 0"
      "failing ''denied''" "rune CHR ''s''"]
  by (simp add: dashboard_showing_def)

subsection \<open>C3: a failed refresh\<close>

text \<open>
  Claim C3: whatever the table holds, if the listing fails with an error then
  \<open>refreshTable\<close> returns that error and the table is exactly as it was before: no row
  is cleared or overwritten. The root view and the stop flag are unchanged as well.
\<close>

theorem failed_refresh_keeps_rows:
  assumes "getInstances c = Returned (Inl err)"
  shows "\<exists>app'. refreshTable c app = Returned (app', Some err)
           \<and> table app' = table app \<and> root app' = root app \<and> stopped app' = stopped app"
  using assms by (simp add: refreshTable_failed)

theorem failed_refresh_keeps_rows_witness:
  "getInstances (failing ''timeout'') = Returned (Inl ''timeout'')
   \<and> refreshTable (failing ''timeout'')
        (dashboard_showing [shown ''i-1'' ''stopped'' ''web-1'' ''''] 1)
       = Returned ((dashboard_showing [shown ''i-1'' ''stopped'' ''web-1'' ''''] 1)
                     \<lparr>calls := [DescribeInstancesCall, DescribeInstancesCall]\<rparr>, Some ''timeout'')"
  using failed_refresh_keeps_rows [of "failing ''timeout''" "''timeout''"
      "dashboard_showing [shown ''i-1'' ''stopped'' ''web-1'' ''''] 1"]
  by (simp add: getInstances_def failing_def refreshTable_def dashboard_showing_def)

subsection \<open>C7: the colour of the state cell\<close>

text \<open>
  Claim C7: the colour of the state cell is a function of the state string alone:
  \<open>running\<close> is green, \<open>stopped\<close> red, \<open>pending\<close> and \<open>stopping\<close> yellow, and
  every other value keeps the default colour. Two records with the same state get the
  same state cell whatever their other fields, and after a successful refresh that cell
  is the one in column 6 of the record's row.
\<close>

theorem state_colour_depends_on_state_only:
  "TextColor (refreshTable_stateCell instance) =
     (if State instance = ''running'' then ColorGreen
      else if State instance = ''stopped'' then ColorRed
      else if State instance = ''pending'' \<or> State instance = ''stopping'' then ColorYellow
      else PrimaryTextColor)
   \<and> (State a = State b \<longrightarrow> refreshTable_stateCell a = refreshTable_stateCell b)
   \<and> (getInstances c = Returned (Inr instances) \<and> k < length instances \<longrightarrow>
        (\<exists>app'. refreshTable c app = Returned (app', None)
           \<and> GetCell (table app') (k + 1) 6 = refreshTable_stateCell (instances ! k)))"
proof -
  have "TextColor (refreshTable_stateCell instance) =
     (if State instance = ''running'' then ColorGreen
      else if State instance = ''stopped'' then ColorRed
      else if State instance = ''pending'' \<or> State instance = ''stopping'' then ColorYellow
      else PrimaryTextColor)"
    by (simp add: refreshTable_stateCell_def NewTableCell_def SetTextColor_def
      InstanceStateNameRunning_def InstanceStateNameStopped_def InstanceStateNamePending_def
      InstanceStateNameStopping_def)
  then show ?thesis
    using refreshTable_stateCell_State refreshTable_state_cell by blast
qed

theorem state_colour_depends_on_state_only_witness:
  "State (shown ''i-1'' ''running'' ''web-1'' '''') = State (shown ''i-2'' ''running'' '''' ''sg-1'')
   \<and> refreshTable_stateCell (shown ''i-1'' ''running'' ''web-1'' '''')
       = refreshTable_stateCell (shown ''i-2'' ''running'' '''' ''sg-1'')
   \<and> TextColor (refreshTable_stateCell (shown ''i-1'' ''running'' ''web-1'' '''')) = ColorGreen
   \<and> TextColor (refreshTable_stateCell (shown ''i-3'' ''terminated'' '''' '''')) = PrimaryTextColor"
proof -
  have s: "State (shown ''i-1'' ''running'' ''web-1'' '''') = State (shown ''i-2'' ''running'' '''' ''sg-1'')"
    by (simp add: shown_def)
  note w = state_colour_depends_on_state_only
  from w [where a = "shown ''i-1'' ''running'' ''web-1'' ''''"
      and b = "shown ''i-2'' ''running'' '''' ''sg-1''", THEN conjunct2, THEN conjunct1] s
  have e: "refreshTable_stateCell (shown ''i-1'' ''running'' ''web-1'' '''')
       = refreshTable_stateCell (shown ''i-2'' ''running'' '''' ''sg-1'')"
    by (rule mp)
  have g: "TextColor (refreshTable_stateCell (shown ''i-1'' ''running'' ''web-1'' '''')) = ColorGreen"
    using w [of "shown ''i-1'' ''running'' ''web-1'' ''''", THEN conjunct1]
    by (simp add: shown_def)
  have d: "TextColor (refreshTable_stateCell (shown ''i-3'' ''terminated'' '''' '''')) = PrimaryTextColor"
    using w [of "shown ''i-3'' ''terminated'' '''' ''''", THEN conjunct1]
    by (simp add: shown_def)
  from s e g d show ?thesis by blast
qed

subsection \<open>C4: which outcomes reach the modal\<close>

text \<open>
  Claim C4, as stated, says that a successful refresh produces a modal message like every
  other outcome. Pressing \<open>r\<close> on an instance row while the provider answers the
  listing leaves the flex layout as the root: no modal is shown.
\<close>

theorem successful_refresh_shows_no_modal:
  "map_exec (root \<circ> fst)
     (inputCapture (answering \<lparr>Reservations = []\<rparr>)
        (dashboard_showing [shown ''i-1'' ''running'' ''web-1'' ''''] 1) (rune CHR ''r''))
   = Returned FlexView"
  by (simp add: inputCapture_def rune_def dashboard_showing_def refreshTable_def getInstances_def
      answering_def)

text \<open>
  Claim C4, amended: on an instance row, every start and every stop outcome, success or
  failure alike, and every failed refresh makes a modal carrying the message the root
  view; a successful refresh redraws the table and shows no modal: the root view stays
  as it is, the header row is kept, and the rows below it are exactly one row per listed
  record, in order, holding that record's seven cells. While a modal is the root, every
  input other than its acknowledgement leaves the application as it is, so the operator
  must acknowledge it before the table handles a key again.
\<close>

theorem outcomes_shown_in_modal:
  assumes "selectedRow (table app) \<noteq> 0" and "ek_Key event = KeyRune"
    and "instanceID = Text (GetCell (table app) (selectedRow (table app)) 1)"
  shows "(ek_Rune event = CHR ''s'' \<longrightarrow>
            map_exec (root \<circ> fst) (inputCapture c app event) =
              Returned (ModalView (case startInstance c instanceID of
                                     Some err \<Rightarrow> ''Error starting instance: '' @ err
                                   | None \<Rightarrow> ''Starting instance: '' @ instanceID)))
       \<and> (ek_Rune event = CHR ''t'' \<longrightarrow>
            map_exec (root \<circ> fst) (inputCapture c app event) =
              Returned (ModalView (case stopInstance c instanceID of
                                     Some err \<Rightarrow> ''Error stopping instance: '' @ err
                                   | None \<Rightarrow> ''Stopping instance: '' @ instanceID)))
       \<and> (ek_Rune event = CHR ''r'' \<and> getInstances c = Returned (Inl err) \<longrightarrow>
            map_exec (root \<circ> fst) (inputCapture c app event) =
              Returned (ModalView (''Error refreshing: '' @ err)))
       \<and> (ek_Rune event = CHR ''r'' \<and> getInstances c = Returned (Inr instances) \<longrightarrow>
            map_exec (root \<circ> fst) (inputCapture c app event) = Returned (root app))
       \<and> (ek_Rune event = CHR ''r'' \<and> getInstances c = Returned (Inr instances) \<longrightarrow>
            (\<exists>app'. inputCapture c app event = Returned (app', event)
               \<and> root app' = root app
               \<and> GetRowCount (table app') =
                   (if instances = [] then min 1 (GetRowCount (table app))
                    else length instances + 1)
               \<and> (\<forall>column. GetCell (table app') 0 column = GetCell (table app) 0 column)
               \<and> (\<forall>k column. k < length instances \<and> column < 7 \<longrightarrow>
                     GetCell (table app') (k + 1) column = row_cells (instances ! k) ! column)))
       \<and> (\<not> stopped app \<longrightarrow>
            step c' (showMessage app message) input =
              Returned (if input = ModalDone then showMessage_done (showMessage app message)
                        else showMessage app message))"
proof -
  have s: "ek_Rune event = CHR ''s'' \<longrightarrow>
            map_exec (root \<circ> fst) (inputCapture c app event) =
              Returned (ModalView (case startInstance c instanceID of
                                     Some err \<Rightarrow> ''Error starting instance: '' @ err
                                   | None \<Rightarrow> ''Starting instance: '' @ instanceID))"
    using assms by (simp add: inputCapture_start [where instanceID = instanceID] showMessage_def)
  have t: "ek_Rune event = CHR ''t'' \<longrightarrow>
            map_exec (root \<circ> fst) (inputCapture c app event) =
              Returned (ModalView (case stopInstance c instanceID of
                                     Some err \<Rightarrow> ''Error stopping instance: '' @ err
                                   | None \<Rightarrow> ''Stopping instance: '' @ instanceID))"
    using assms by (simp add: inputCapture_stop [where instanceID = instanceID] showMessage_def)
  have rf: "ek_Rune event = CHR ''r'' \<and> getInstances c = Returned (Inl err) \<longrightarrow>
            map_exec (root \<circ> fst) (inputCapture c app event) =
              Returned (ModalView (''Error refreshing: '' @ err))"
    using assms by (simp add: inputCapture_refresh_failed showMessage_def)
  have rs: "ek_Rune event = CHR ''r'' \<and> getInstances c = Returned (Inr instances) \<longrightarrow>
            map_exec (root \<circ> fst) (inputCapture c app event) = Returned (root app)"
    using assms by (simp add: inputCapture_refresh_succeeded)
  have m: "\<not> stopped app \<longrightarrow>
            step c' (showMessage app message) input =
              Returned (if input = ModalDone then showMessage_done (showMessage app message)
                        else showMessage app message)"
    using step_modal by blast
  have rd: "ek_Rune event = CHR ''r'' \<and> getInstances c = Returned (Inr instances) \<longrightarrow>
            (\<exists>app'. inputCapture c app event = Returned (app', event)
               \<and> root app' = root app
               \<and> GetRowCount (table app') =
                   (if instances = [] then min 1 (GetRowCount (table app))
                    else length instances + 1)
               \<and> (\<forall>column. GetCell (table app') 0 column = GetCell (table app) 0 column)
               \<and> (\<forall>k column. k < length instances \<and> column < 7 \<longrightarrow>
                     GetCell (table app') (k + 1) column = row_cells (instances ! k) ! column))"
    using inputCapture_refresh_redraws [OF assms(1,2)] by blast
  show ?thesis by (intro conjI s t rf rs rd m)
qed

theorem outcomes_shown_in_modal_witness:
  "selectedRow (table (dashboard_showing [shown ''i-1'' ''stopped'' ''web-1'' ''''] 1)) \<noteq> 0
   \<and> ek_Key (rune CHR ''s'') = KeyRune
   \<and> ''i-1'' = Text (GetCell (table (dashboard_showing [shown ''i-1'' ''stopped'' ''web-1'' ''''] 1))
                 (selectedRow (table (dashboard_showing [shown ''i-1'' ''stopped'' ''web-1'' ''''] 1))) 1)
   \<and> map_exec (root \<circ> fst)
        (inputCapture (failing ''denied'')
           (dashboard_showing [shown ''i-1'' ''stopped'' ''web-1'' ''''] 1) (rune CHR ''s''))
       = Returned (ModalView ''Error starting instance: denied'')
   \<and> map_exec (root \<circ> fst)
        (inputCapture (answering \<lparr>Reservations = []\<rparr>)
           (dashboard_showing [shown ''i-1'' ''stopped'' ''web-1'' ''''] 1) (rune CHR ''s''))
       = Returned (ModalView ''Starting instance: i-1'')
   \<and> map_exec (\<lambda>p. (root (fst p), GetRowCount (table (fst p)), Text (GetCell (table (fst p)) 1 1)))
        (inputCapture
           (answering \<lparr>Reservations =
              [\<lparr>Instances = [instance_with (Some ''i-2'') ''running'' [] []]\<rparr>]\<rparr>)
           (dashboard_showing [shown ''i-1'' ''stopped'' ''web-1'' ''''] 1) (rune CHR ''r''))
       = Returned (FlexView, 2, ''i-2'')"
proof -
  have sel: "selectedRow (table (dashboard_showing [shown ''i-1'' ''stopped'' ''web-1'' ''''] 1)) = 1"
    by (simp add: dashboard_showing_def)
  have cell: "Text (GetCell (table (dashboard_showing [shown ''i-1'' ''stopped'' ''web-1'' ''''] 1)) 1 1)
      = ''i-1''"
    using GetCell_refreshTable_fill [of 0 "[shown ''i-1'' ''stopped'' ''web-1'' '''']" 1 0]
    by (simp add: dashboard_showing_def row_cells_def shown_def NewTableCell_def)
  have pos: "selectedRow (table (dashboard_showing [shown ''i-1'' ''stopped'' ''web-1'' ''''] 1)) \<noteq> 0"
    using sel by simp
  have k: "ek_Key (rune CHR ''s'') = KeyRune" "ek_Rune (rune CHR ''s'') = CHR ''s''"
    by (simp_all add: rune_def)
  have iid: "''i-1'' = Text (GetCell (table (dashboard_showing [shown ''i-1'' ''stopped'' ''web-1'' ''''] 1))
                 (selectedRow (table (dashboard_showing [shown ''i-1'' ''stopped'' ''web-1'' ''''] 1))) 1)"
    using sel cell by simp
  note w = outcomes_shown_in_modal [OF pos k(1) iid]
  from w [where c = "failing ''denied''"] k(2)
  have 1: "map_exec (root \<circ> fst)
        (inputCapture (failing ''denied'')
           (dashboard_showing [shown ''i-1'' ''stopped'' ''web-1'' ''''] 1) (rune CHR ''s''))
       = Returned (ModalView ''Error starting instance: denied'')"
    by (simp add: startInstance_def failing_def)
  from w [where c = "answering \<lparr>Reservations = []\<rparr>"] k(2)
  have 2: "map_exec (root \<circ> fst)
        (inputCapture (answering \<lparr>Reservations = []\<rparr>)
           (dashboard_showing [shown ''i-1'' ''stopped'' ''web-1'' ''''] 1) (rune CHR ''s''))
       = Returned (ModalView ''Starting instance: i-1'')"
    by (simp add: startInstance_def answering_def)
  have 3: "map_exec (\<lambda>p. (root (fst p), GetRowCount (table (fst p)), Text (GetCell (table (fst p)) 1 1)))
        (inputCapture
           (answering \<lparr>Reservations =
              [\<lparr>Instances = [instance_with (Some ''i-2'') ''running'' [] []]\<rparr>]\<rparr>)
           (dashboard_showing [shown ''i-1'' ''stopped'' ''web-1'' ''''] 1) (rune CHR ''r''))
       = Returned (FlexView, 2, ''i-2'')"
    by code_simp
  from pos k(1) iid 1 2 3 show ?thesis by blast
qed

subsection \<open>C10: what acknowledging a modal restores\<close>

text \<open>
  Claim C10: acknowledging a modal, whatever its message, makes the bare table the root
  view, not the flex layout of table and help line; and from then on the flex layout is
  never the root again, whatever inputs follow: the help line is gone for the rest of
  the run.
\<close>

theorem dismissal_leaves_bare_table:
  assumes "root app = ModalView message" and "\<not> stopped app"
  shows "step c app ModalDone = Returned (app\<lparr>root := TableView\<rparr>)
       \<and> (\<forall>rest app'. run app ((c, ModalDone) # rest) = Returned app' \<longrightarrow> root app' \<noteq> FlexView)"
proof -
  have 1: "step c app ModalDone = Returned (app\<lparr>root := TableView\<rparr>)"
    using assms by (simp add: step_def showMessage_done_def)
  have 2: "root app' \<noteq> FlexView" if "run app ((c, ModalDone) # rest) = Returned app'"
    for rest app'
  proof -
    from that 1 have "run (app\<lparr>root := TableView\<rparr>) rest = Returned app'" by simp
    moreover have "root (app\<lparr>root := TableView\<rparr>) \<noteq> FlexView" by simp
    ultimately show ?thesis by (rule run_root_not_FlexView [rotated])
  qed
  from 1 2 show ?thesis by blast
qed

theorem dismissal_leaves_bare_table_witness:
  "root (showMessage (dashboard_showing [shown ''i-1'' ''stopped'' ''web-1'' ''''] 1)
           ''Starting instance: i-1'') = ModalView ''Starting instance: i-1''
   \<and> \<not> stopped (showMessage (dashboard_showing [shown ''i-1'' ''stopped'' ''web-1'' ''''] 1)
           ''Starting instance: i-1'')
   \<and> map_exec root
        (run (showMessage (dashboard_showing [shown ''i-1'' ''stopped'' ''web-1'' ''''] 1)
                ''Starting instance: i-1'')
           [(answering \<lparr>Reservations = []\<rparr>, ModalDone),
            (answering \<lparr>Reservations = []\<rparr>, KeyPress (rune CHR ''r'')),
            (answering \<lparr>Reservations = []\<rparr>, KeyPress (rune CHR ''x''))])
       = Returned TableView"
proof -
  have m: "root (showMessage (dashboard_showing [shown ''i-1'' ''stopped'' ''web-1'' ''''] 1)
           ''Starting instance: i-1'') = ModalView ''Starting instance: i-1''"
    by (simp add: showMessage_def)
  have n: "\<not> stopped (showMessage (dashboard_showing [shown ''i-1'' ''stopped'' ''web-1'' ''''] 1)
           ''Starting instance: i-1'')"
    by (simp add: showMessage_def dashboard_showing_def)
  have e: "map_exec root
        (run (showMessage (dashboard_showing [shown ''i-1'' ''stopped'' ''web-1'' ''''] 1)
                ''Starting instance: i-1'')
           [(answering \<lparr>Reservations = []\<rparr>, ModalDone),
            (answering \<lparr>Reservations = []\<rparr>, KeyPress (rune CHR ''r'')),
            (answering \<lparr>Reservations = []\<rparr>, KeyPress (rune CHR ''x''))])
       = Returned TableView"
    by code_simp
  from dismissal_leaves_bare_table [OF m n, of "answering \<lparr>Reservations = []\<rparr>"] m n e
  show ?thesis by blast
qed

end
